theory Spec2Isabelle
  imports Main "HOL-Library.Sublist"
begin

unbundle bit_operations_syntax

section \<open>Strings, code points and the Unicode character database\<close>

text \<open>
  A Python \<open>str\<close> is a sequence of Unicode code points. A code point is modelled by its
  ordinal (Python's \<open>ord\<close>), a string by the list of its code points, so that
  \<open>length\<close> counts what Python's \<open>len\<close> counts. Python integers are unbounded: \<open>int\<close>.
\<close>

type_synonym codepoint = nat
type_synonym pystr = "codepoint list"

definition ustr :: "string \<Rightarrow> pystr" where
  "ustr s = map of_char s"

text \<open>
  \<open>cliptext.py\<close> reads the character database through the standard module
  \<open>unicodedata\<close>, which is not part of the repository: the four functions it calls are
  the fields of a parameter. \<open>name\<close> raises \<open>ValueError\<close> on a character without a
  name: \<open>None\<close> here.
\<close>

record unicodedata =
  east_asian_width :: "codepoint \<Rightarrow> string"
  category :: "codepoint \<Rightarrow> string"
  combining :: "codepoint \<Rightarrow> nat"
  name :: "codepoint \<Rightarrow> string option"

datatype py_error = ValueError | CursesError | UnboundLocalError

text \<open>Python's \<open>a in b\<close> on strings: \<open>a\<close> occurs in \<open>b\<close> as a contiguous run.\<close>

definition str_in :: "'a list \<Rightarrow> 'a list \<Rightarrow> bool" where
  "str_in a b = sublist a b"

section \<open>Width model (\<open>cliptext.py\<close>)\<close>

definition ZERO_WIDTH_CF :: "codepoint set" where
  "ZERO_WIDTH_CF =
     {0, 0x034F, 0x200B, 0x200C, 0x200D, 0x200E, 0x200F, 0x2028, 0x2029,
      0x202A, 0x202B, 0x202C, 0x202D, 0x202E, 0x2060, 0x2061, 0x2062, 0x2063}"

definition wcwidth :: "unicodedata \<Rightarrow> codepoint \<Rightarrow> int \<Rightarrow> int" where
  "wcwidth U cc ambig =
     (if cc \<in> ZERO_WIDTH_CF then 1
      else let eaw = east_asian_width U cc in
        if str_in eaw ''AN'' then
          (if category U cc = ''Mn'' then 1 else ambig)
        else if str_in eaw ''WF'' then 2
        else if combining U cc = 0 then 1
        else 0)"

section \<open>Markup segmenter\<close>

text \<open>
  \<open>internal_markup_re = r'(\[:[^\]]*?\])'\<close>. At a position holding \<open>[:\<close> the pattern
  matches up to the first \<open>]\<close> that follows, and fails when none follows.
  \<open>find_close\<close> scans \<open>[^\]]*?\]\<close>: the text before the first \<open>]\<close> and the text after it.
\<close>

fun find_close :: "pystr \<Rightarrow> (pystr \<times> pystr) option" where
  "find_close [] = None"
| "find_close (c # cs) =
     (if c = 93 then Some ([], cs)
      else (case find_close cs of
              None \<Rightarrow> None
            | Some (body, rest) \<Rightarrow> Some (c # body, rest)))"

lemma find_close_length:
  "find_close cs = Some (body, rest) \<Longrightarrow> length rest < length cs"
  by (induction cs arbitrary: body rest) (auto split: if_splits option.splits)

text \<open>
  \<open>re.split(internal_markup_re, s)\<close>: the pattern is one capturing group, so the result
  alternates the text between matches (possibly empty) with the matches themselves,
  leftmost match first; the list has always an odd length.
\<close>

function re_split :: "pystr \<Rightarrow> pystr list" where
  "re_split [] = [[]]"
| "re_split (c # cs) =
     (case (if c = 91 \<and> take 1 cs = [58] then find_close (drop 1 cs) else None) of
        Some (body, rest) \<Rightarrow> [] # ([91, 58] @ body @ [93]) # re_split rest
      | None \<Rightarrow> (case re_split cs of
                   [] \<Rightarrow> [[c]]
                 | t # ts \<Rightarrow> (c # t) # ts))"
  by pat_completeness auto
termination
proof (relation "measure length")
  show "wf (measure length)" by simp
next
  fix c :: codepoint and cs :: pystr and x2 :: "pystr \<times> pystr" and body rest :: pystr
  assume a: "(if c = 91 \<and> take 1 cs = [58] then find_close (drop 1 cs) else None) = Some x2"
    and b: "(body, rest) = x2"
  from a b have "find_close (drop 1 cs) = Some (body, rest)"
    by (auto split: if_splits)
  then have "length rest < length (drop 1 cs)" by (rule find_close_length)
  then show "(rest, c # cs) \<in> measure length" by simp
next
  fix c :: codepoint and cs :: pystr
  show "(cs, c # cs) \<in> measure length" by simp
qed

text \<open>
  \<open>iterchunks\<close>: the generator's yields, in order. \<open>chunk[2:-1] or ':'\<close> is the marker's
  name, or \<open>':'\<close> for the reset marker \<open>[:]\<close>.
\<close>

definition iterchunk :: "bool \<Rightarrow> pystr \<Rightarrow> (pystr \<times> pystr) list" where
  "iterchunk literal chunk =
     (if chunk = [] then []
      else if \<not> literal \<and> prefix (ustr ''[:'') chunk \<and> suffix (ustr '']'') chunk then
        [(if butlast (drop 2 chunk) = [] then ustr '':'' else butlast (drop 2 chunk), [])]
      else [([], chunk)])"

definition iterchunks :: "pystr \<Rightarrow> bool \<Rightarrow> (pystr \<times> pystr) list" where
  "iterchunks s literal = concat (map (iterchunk literal) (re_split s))"

section \<open>Width measurer\<close>

text \<open>
  \<open>maxwidth\<close> is \<open>None\<close> or an integer; \<open>if maxwidth and w > maxwidth\<close> reads it for
  truth first, so \<open>None\<close> and \<open>0\<close> both switch the test off. The \<open>break\<close> leaves the loop
  over the characters of one chunk; the loop over the chunks goes on.
\<close>

definition truthy :: "int option \<Rightarrow> bool" where
  "truthy m = (case m of None \<Rightarrow> False | Some v \<Rightarrow> v \<noteq> 0)"

fun dispwidth_chars :: "unicodedata \<Rightarrow> int \<Rightarrow> int option \<Rightarrow> int \<Rightarrow> pystr \<Rightarrow> int" where
  "dispwidth_chars U ambig maxwidth w [] = w"
| "dispwidth_chars U ambig maxwidth w (cc # s) =
     (let w' = w + wcwidth U cc ambig in
      if truthy maxwidth \<and> w' > the maxwidth then w'
      else dispwidth_chars U ambig maxwidth w' s)"

fun dispwidth_chunks ::
  "unicodedata \<Rightarrow> int \<Rightarrow> int option \<Rightarrow> int \<Rightarrow> (pystr \<times> pystr) list \<Rightarrow> int" where
  "dispwidth_chunks U ambig maxwidth w [] = w"
| "dispwidth_chunks U ambig maxwidth w ((tok, s) # chunks) =
     dispwidth_chunks U ambig maxwidth (dispwidth_chars U ambig maxwidth w s) chunks"

text \<open>\<open>disp_ambig_width\<close> is \<open>options.disp_ambig_width\<close>, read at each call.\<close>

definition dispwidth :: "unicodedata \<Rightarrow> int \<Rightarrow> pystr \<Rightarrow> int option \<Rightarrow> bool \<Rightarrow> int" where
  "dispwidth U disp_ambig_width ss maxwidth literal =
     dispwidth_chunks U disp_ambig_width maxwidth 0 (iterchunks ss literal)"

section \<open>Clipper\<close>

text \<open>
  \<open>_dispch\<close> (an Isabelle name starts with a letter: \<open>priv_dispch\<close>). The three
  substitutions are one \<open>if\<close>/\<open>elif\<close> chain: a character of category Mn, Sk or Lm whose
  name does not start with \<open>MODIFIER\<close> falls through to the last \<open>return\<close>, past both
  \<open>elif\<close> tests.
\<close>

definition priv_dispch ::
  "unicodedata \<Rightarrow> int \<Rightarrow> codepoint \<Rightarrow> pystr \<Rightarrow> pystr \<Rightarrow> pystr \<Rightarrow> py_error + (pystr \<times> int)" where
  "priv_dispch U ambig c oddspacech combch modch =
     (let ccat = category U c in
      if ccat \<in> set [''Mn'', ''Sk'', ''Lm''] then
        (case name U c of
           None \<Rightarrow> Inl ValueError
         | Some n \<Rightarrow>
             if prefix ''MODIFIER'' n then Inr (modch, 1)
             else Inr ([c], dispwidth U ambig [c] None True))
      else if c \<noteq> 32 \<and> ccat \<in> set [''Cc'', ''Zs'', ''Zl'', ''Cs''] then Inr (oddspacech, 1)
      else if c \<in> ZERO_WIDTH_CF then Inr (combch, 1)
      else Inr ([c], dispwidth U ambig [c] None True))"

text \<open>
  The loop of \<open>_clipstr\<close> over the characters of \<open>s\<close>, with the locals \<open>ret\<close> and \<open>w\<close>.
  \<open>ret[:-2]\<close> drops the last two characters (all of them when there are fewer).
\<close>

fun clipstr_loop ::
  "unicodedata \<Rightarrow> int \<Rightarrow> int \<Rightarrow> pystr \<Rightarrow> int \<Rightarrow> pystr \<Rightarrow> pystr \<Rightarrow> pystr \<Rightarrow>
   pystr \<Rightarrow> int \<Rightarrow> pystr \<Rightarrow> py_error + (pystr \<times> int)" where
  "clipstr_loop U ambig dispw trunch trunchlen oddspacech combch modch ret w [] = Inr (ret, w)"
| "clipstr_loop U ambig dispw trunch trunchlen oddspacech combch modch ret w (c # s) =
     (case priv_dispch U ambig c oddspacech combch modch of
        Inl e \<Rightarrow> Inl e
      | Inr (newc, chlen) \<Rightarrow>
          (let ret' = (if newc \<noteq> [] then ret @ newc else ret @ [c]);
               w' = (if newc \<noteq> [] then w + chlen else w + dispwidth U ambig [c] None False)
           in if dispw \<noteq> 0 \<and> w' > dispw - trunchlen + 1
              then Inr (take (length ret' - 2) ret' @ trunch, w' + trunchlen)
              else clipstr_loop U ambig dispw trunch trunchlen oddspacech combch modch ret' w' s))"

definition priv_clipstr ::
  "unicodedata \<Rightarrow> int \<Rightarrow> pystr \<Rightarrow> int \<Rightarrow> pystr \<Rightarrow> pystr \<Rightarrow> pystr \<Rightarrow> pystr \<Rightarrow>
   py_error + (pystr \<times> int)" where
  "priv_clipstr U ambig s dispw trunch oddspacech combch modch =
     clipstr_loop U ambig dispw trunch (dispwidth U ambig trunch None False)
       oddspacech combch modch [] 0 s"

text \<open>The options \<open>cliptext.py\<close> reads.\<close>

record options =
  disp_ambig_width :: int
  visibility :: int
  disp_truncator :: pystr
  disp_oddspace :: pystr
  debug :: bool

definition clipstr ::
  "unicodedata \<Rightarrow> options \<Rightarrow> pystr \<Rightarrow> int \<Rightarrow> pystr option \<Rightarrow> pystr option \<Rightarrow>
   py_error + (pystr \<times> int)" where
  "clipstr U opts s dispw truncator oddspace =
     (let trunch = (case truncator of None \<Rightarrow> disp_truncator opts | Some t \<Rightarrow> t);
          oddspacech = (case oddspace of None \<Rightarrow> disp_oddspace opts | Some t \<Rightarrow> t)
      in if visibility opts \<noteq> 0
         then priv_clipstr U (disp_ambig_width opts) s dispw trunch oddspacech [0x25cc] [0x25e6]
         else priv_clipstr U (disp_ambig_width opts) s dispw trunch oddspacech [] [])"

section \<open>An excerpt of the character database\<close>

text \<open>
  For evaluating the functions on concrete strings: the entries of the Unicode
  character database for the ASCII controls, the space, the lower-case letters, the
  punctuation \<open>. : [ ]\<close>, U+02B0 (a modifier letter), U+2026 (the horizontal ellipsis,
  of ambiguous width) and the hiragana letters (wide). Other code points get the
  values of an unassigned one.
\<close>

definition ucd_east_asian_width :: "codepoint \<Rightarrow> string" where
  "ucd_east_asian_width c =
     (if 32 \<le> c \<and> c \<le> 126 then ''Na''
      else if c = 0x2026 then ''A''
      else if 0x3041 \<le> c \<and> c \<le> 0x3096 then ''W''
      else ''N'')"

definition ucd_category :: "codepoint \<Rightarrow> string" where
  "ucd_category c =
     (if c < 32 then ''Cc''
      else if c = 32 then ''Zs''
      else if 97 \<le> c \<and> c \<le> 122 then ''Ll''
      else if c = 46 \<or> c = 58 \<or> c = 0x2026 then ''Po''
      else if c = 91 then ''Ps''
      else if c = 93 then ''Pe''
      else if c = 0x02B0 then ''Lm''
      else if 0x3041 \<le> c \<and> c \<le> 0x3096 then ''Lo''
      else ''Cn'')"

definition ucd_name :: "codepoint \<Rightarrow> string option" where
  "ucd_name c =
     (if c = 0x02B0 then Some ''MODIFIER LETTER SMALL H''
      else if c = 0x2026 then Some ''HORIZONTAL ELLIPSIS''
      else if c = 32 then Some ''SPACE''
      else None)"

definition ucd :: unicodedata where
  "ucd = \<lparr>east_asian_width = ucd_east_asian_width, category = ucd_category,
          combining = (\<lambda>c. 0), name = ucd_name\<rparr>"


section \<open>Drawing surface\<close>

text \<open>
  The curses window is outside the repository: the methods the code calls on one are
  the fields of a parameter. A window is a mutable object; \<open>addstr\<close> returns the
  window as written, or raises (\<open>Inl\<close>).
\<close>

record 'scr window_ops =
  getmaxyx :: "'scr \<Rightarrow> int \<times> int"
  getparyx :: "'scr \<Rightarrow> int \<times> int"
  addstr :: "'scr \<Rightarrow> int \<Rightarrow> int \<Rightarrow> pystr \<Rightarrow> int \<Rightarrow> py_error + 'scr"

section \<open>Mouse region registry (\<open>mouse.py\<close>)\<close>

text \<open>
  The value a region stores for a button is a command string or a callable
  (\<open>handleMouse\<close> tells them apart with \<open>isinstance(f, str)\<close>). A region is the
  \<open>AttrDict\<close> that \<open>onMouse\<close> builds; its fields \<open>y x h w\<close> are \<open>reg_y reg_x reg_h reg_w\<close>
  here. \<open>vd.mousereg\<close> is the list of regions, in the order of registration.
\<close>

datatype 'f command = CmdStr pystr | CmdCall 'f

record ('scr, 'f) mouse_region =
  winname :: pystr
  winscr :: 'scr
  reg_y :: int
  reg_x :: int
  reg_h :: int
  reg_w :: int
  buttonfuncs :: "pystr \<rightharpoonup> 'f command"

definition onMouse ::
  "'scr window_ops \<Rightarrow> ('scr, 'f) mouse_region list \<Rightarrow> 'scr \<Rightarrow> int \<Rightarrow> int \<Rightarrow> int \<Rightarrow> int \<Rightarrow>
   pystr \<Rightarrow> (pystr \<rightharpoonup> 'f command) \<Rightarrow> ('scr, 'f) mouse_region list" where
  "onMouse ops mousereg scr y x h w wname kwargs =
     (let (py, px) = getparyx ops scr;
          y' = (if py > 0 then y + py else y);
          x' = (if py > 0 then x + px else x)
      in mousereg @ [\<lparr>winname = wname, winscr = scr, reg_y = y', reg_x = x',
                       reg_h = h, reg_w = w, buttonfuncs = kwargs\<rparr>])"

text \<open>
  \<open>getMouse\<close> walks \<open>self.mousereg[::-1]\<close> and returns at the first region that holds
  the point and the button; falling off the loop returns Python's \<open>None\<close>.
\<close>

fun getMouse_loop ::
  "('scr, 'f) mouse_region list \<Rightarrow> int \<Rightarrow> int \<Rightarrow> pystr \<Rightarrow> 'f command option" where
  "getMouse_loop [] x y button = None"
| "getMouse_loop (reg # regs) x y button =
     (if reg_x reg \<le> x \<and> x < reg_x reg + reg_w reg
         \<and> reg_y reg \<le> y \<and> y < reg_y reg + reg_h reg
         \<and> button \<in> dom (buttonfuncs reg)
      then buttonfuncs reg button
      else getMouse_loop regs x y button)"

definition getMouse ::
  "('scr, 'f) mouse_region list \<Rightarrow> 'scr option \<Rightarrow> int \<Rightarrow> int \<Rightarrow> pystr \<Rightarrow> 'f command option" where
  "getMouse mousereg scr x y button = getMouse_loop (rev mousereg) x y button"

section \<open>Mouse event decoder\<close>

text \<open>\<open>str(bstate)\<close>: the decimal digits of an integer.\<close>

fun str_nat :: "nat \<Rightarrow> pystr" where
  "str_nat n = (if n < 10 then [48 + n] else str_nat (n div 10) @ [48 + n mod 10])"

declare str_nat.simps [simp del]

definition str_int :: "int \<Rightarrow> pystr" where
  "str_int i = (if i < 0 then 45 # str_nat (nat (- i)) else str_nat (nat i))"

text \<open>
  The constants of the \<open>curses\<close> module that \<open>parseMouse\<close> reads, and the table
  \<open>curses.mouseEvents\<close> that \<open>initCurses\<close> fills. \<open>curses.getmouse()\<close> returns the
  tuple \<open>(devid, x, y, z, bstate)\<close> or raises \<open>curses.error\<close>: the argument \<open>getmouse\<close>
  of \<open>parseMouse\<close> is that outcome. \<open>kwargs\<close> lists the windows by name, in the order
  of the call.
\<close>

record curses_module =
  BUTTON_CTRL :: int
  BUTTON_ALT :: int
  BUTTON_SHIFT :: int
  mouseEvents :: "int \<rightharpoonup> pystr"

record mouse_event =
  keystroke :: pystr
  ev_y :: int
  ev_x :: int
  found :: "pystr list"

definition in_window :: "'scr window_ops \<Rightarrow> int \<Rightarrow> int \<Rightarrow> 'scr \<Rightarrow> bool" where
  "in_window ops y x wscr =
     (let (py, px) = getparyx ops wscr; (mh, mw) = getmaxyx ops wscr
      in py \<le> y \<and> y < py + mh \<and> px \<le> x \<and> x < px + mw)"

definition parseMouse ::
  "curses_module \<Rightarrow> 'scr window_ops \<Rightarrow> py_error + (int \<times> int \<times> int \<times> int \<times> int) \<Rightarrow>
   (pystr \<times> 'scr) list \<Rightarrow> py_error + mouse_event" where
  "parseMouse C ops getmouse kwargs =
     (case getmouse of
        Inl e \<Rightarrow> Inl e
      | Inr (devid, x, y, z, bstate) \<Rightarrow>
          (let c1 = (if bstate AND BUTTON_CTRL C \<noteq> 0 then ustr ''CTRL-'' else []);
               b1 = (if bstate AND BUTTON_CTRL C \<noteq> 0 then bstate AND NOT (BUTTON_CTRL C) else bstate);
               c2 = (if b1 AND BUTTON_ALT C \<noteq> 0 then c1 @ ustr ''ALT-'' else c1);
               b2 = (if b1 AND BUTTON_ALT C \<noteq> 0 then b1 AND NOT (BUTTON_ALT C) else b1);
               c3 = (if b2 AND BUTTON_SHIFT C \<noteq> 0 then c2 @ ustr ''SHIFT-'' else c2);
               b3 = (if b2 AND BUTTON_SHIFT C \<noteq> 0 then b2 AND NOT (BUTTON_SHIFT C) else b2);
               ks = c3 @ (case mouseEvents C b3 of Some n \<Rightarrow> n | None \<Rightarrow> str_int b3)
           in Inr \<lparr>keystroke = ks, ev_y = y, ev_x = x,
                   found = map fst (filter (\<lambda>(wname, wscr). in_window ops y x wscr) kwargs)\<rparr>))"

section \<open>Dispatcher\<close>

text \<open>
  \<open>f.split()\<close> splits at runs of whitespace and drops empty pieces; \<open>isspace\<close> lists the
  code points Python counts as whitespace.
\<close>

definition isspace :: "codepoint \<Rightarrow> bool" where
  "isspace c = ((9 \<le> c \<and> c \<le> 13) \<or> (28 \<le> c \<and> c \<le> 32) \<or> c = 0x85 \<or> c = 0xA0 \<or> c = 0x1680
      \<or> (0x2000 \<le> c \<and> c \<le> 0x200A) \<or> c = 0x2028 \<or> c = 0x2029 \<or> c = 0x202F \<or> c = 0x205F
      \<or> c = 0x3000)"

fun split_ws :: "pystr \<Rightarrow> pystr \<Rightarrow> pystr list" where
  "split_ws cur [] = (if cur = [] then [] else [cur])"
| "split_ws cur (c # cs) =
     (if isspace c then (if cur = [] then split_ws [] cs else cur # split_ws [] cs)
      else split_ws (cur @ [c]) cs)"

definition str_split :: "pystr \<Rightarrow> pystr list" where
  "str_split s = split_ws [] s"

text \<open>
  The part of \<open>vd\<close> that \<open>handleMouse\<close> reads and writes: the registry, \<open>keystrokes\<close>,
  \<open>windowConfig['pct']\<close>, \<open>activePane\<close>, the three windows, and the attributes
  \<open>mouseX, mouseY\<close> of each sheet. What the application does with a command is a
  parameter: \<open>activeSheet\<close>, \<open>execCommand\<close>, the call of a callable and \<open>prettykeys\<close>.
\<close>

record ('scr, 'f, 'sheet) vd_state =
  mousereg :: "('scr, 'f) mouse_region list"
  keystrokes :: pystr
  pct :: int
  activePane :: int
  winTop :: 'scr
  winBottom :: 'scr
  scrMenu :: 'scr
  mouseXY :: "'sheet \<rightharpoonup> int \<times> int"

record ('scr, 'f, 'sheet) app =
  activeSheet :: "('scr, 'f, 'sheet) vd_state \<Rightarrow> 'sheet"
  execCommand :: "'sheet \<Rightarrow> pystr \<Rightarrow> ('scr, 'f, 'sheet) vd_state \<Rightarrow> py_error + ('scr, 'f, 'sheet) vd_state"
  call :: "'f \<Rightarrow> int \<Rightarrow> int \<Rightarrow> pystr \<Rightarrow> ('scr, 'f, 'sheet) vd_state \<Rightarrow> py_error + ('scr, 'f, 'sheet) vd_state"
  prettykeys :: "pystr \<Rightarrow> pystr"

text \<open>\<open>for cmd in f.split(): sheet.execCommand(cmd)\<close>; an exception ends the loop.\<close>

fun execCommands ::
  "('scr, 'f, 'sheet) app \<Rightarrow> 'sheet \<Rightarrow> pystr list \<Rightarrow> ('scr, 'f, 'sheet) vd_state \<Rightarrow>
   py_error \<times> ('scr, 'f, 'sheet) vd_state + ('scr, 'f, 'sheet) vd_state" where
  "execCommands A sheet [] vd = Inr vd"
| "execCommands A sheet (cmd # cmds) vd =
     (case execCommand A sheet cmd vd of
        Inl e \<Rightarrow> Inl (e, vd)
      | Inr vd' \<Rightarrow> execCommands A sheet cmds vd')"

text \<open>\<open>if f:\<close> --- \<open>None\<close> and the empty string are false.\<close>

definition command_truthy :: "'f command option \<Rightarrow> bool" where
  "command_truthy f = (case f of None \<Rightarrow> False | Some (CmdStr s) \<Rightarrow> s \<noteq> [] | Some (CmdCall g) \<Rightarrow> True)"

text \<open>
  The \<open>try\<close> block of \<open>handleMouse\<close> ends in one of three ways: the \<open>return ''\<close>
  inside it, its end (no command found), or an exception. The state it leaves holds the
  local \<open>r\<close>, which is unassigned (\<open>None\<close> here) until \<open>parseMouse\<close> has returned.
  \<open>r.winscr\<close> is no key of \<open>r\<close>; \<open>getMouse\<close> does not read its first argument.
\<close>

datatype ('r, 'st) tried = Returned 'r 'st | Fell 'st | Raised py_error 'st

definition handleMouse_try ::
  "('scr, 'f, 'sheet) app \<Rightarrow> curses_module \<Rightarrow> 'scr window_ops \<Rightarrow>
   py_error + (int \<times> int \<times> int \<times> int \<times> int) \<Rightarrow> 'sheet \<Rightarrow> ('scr, 'f, 'sheet) vd_state \<Rightarrow>
   (pystr, mouse_event option \<times> ('scr, 'f, 'sheet) vd_state) tried" where
  "handleMouse_try A C ops getmouse sheet vd0 =
     (let vd1 = vd0\<lparr>keystrokes := []\<rparr>;
          topPaneActive = ((activePane vd1 = 2 \<and> pct vd1 < 0) \<or> (activePane vd1 = 1 \<and> pct vd1 > 0));
          bottomPaneActive = ((activePane vd1 = 1 \<and> pct vd1 < 0) \<or> (activePane vd1 = 2 \<and> pct vd1 > 0))
      in case parseMouse C ops getmouse
                [(ustr ''top'', winTop vd1), (ustr ''bot'', winBottom vd1), (ustr ''menu'', scrMenu vd1)] of
           Inl e \<Rightarrow> Raised e (None, vd1)
         | Inr r \<Rightarrow>
             (let switch = ((bottomPaneActive \<and> ustr ''top'' \<in> set (found r))
                            \<or> (topPaneActive \<and> ustr ''bot'' \<in> set (found r)));
                  vd2 = (if switch then vd1\<lparr>activePane := (if activePane vd1 = 2 then 1 else 2)\<rparr> else vd1);
                  sheet2 = (if switch then activeSheet A vd2 else sheet);
                  f = getMouse (mousereg vd2) None (ev_x r) (ev_y r) (keystroke r);
                  vd3 = vd2\<lparr>mouseXY := (mouseXY vd2)(sheet2 \<mapsto> (ev_x r, ev_y r - 1))\<rparr>
              in if command_truthy f then
                   (case (case f of
                            Some (CmdStr s) \<Rightarrow> execCommands A sheet2 (str_split s) vd3
                          | Some (CmdCall g) \<Rightarrow>
                              (case call A g (ev_y r) (ev_x r) (keystroke r) vd3 of
                                 Inl e \<Rightarrow> Inl (e, vd3) | Inr v \<Rightarrow> Inr v)
                          | None \<Rightarrow> Inr vd3) of
                      Inl (e, v) \<Rightarrow> Raised e (Some r, v)
                    | Inr v \<Rightarrow> Returned [] (Some r, v\<lparr>keystrokes := prettykeys A (keystroke r)\<rparr>))
                 else Fell (Some r, vd3)))"

text \<open>
  \<open>except curses.error: pass\<close> catches the curses error only, and control reaches
  \<open>return r.keystroke\<close>, which reads the local \<open>r\<close>: unassigned, it raises
  \<open>UnboundLocalError\<close>.
\<close>

definition handleMouse ::
  "('scr, 'f, 'sheet) app \<Rightarrow> curses_module \<Rightarrow> 'scr window_ops \<Rightarrow>
   py_error + (int \<times> int \<times> int \<times> int \<times> int) \<Rightarrow> 'sheet \<Rightarrow> ('scr, 'f, 'sheet) vd_state \<Rightarrow>
   (py_error + pystr) \<times> ('scr, 'f, 'sheet) vd_state" where
  "handleMouse A C ops getmouse sheet vd =
     (let after = (\<lambda>(r, v). case r of
                      None \<Rightarrow> (Inl UnboundLocalError, v)
                    | Some ev \<Rightarrow> (Inr (keystroke ev), v))
      in case handleMouse_try A C ops getmouse sheet vd of
           Returned s (r, v) \<Rightarrow> (Inr s, v)
         | Fell rv \<Rightarrow> after rv
         | Raised e rv \<Rightarrow> (if e = CursesError then after rv else (Inl e, snd rv)))"

text \<open>The test of \<open>getMouse\<close> on one region, by name.\<close>

definition region_matches :: "('scr, 'f) mouse_region \<Rightarrow> int \<Rightarrow> int \<Rightarrow> pystr \<Rightarrow> bool" where
  "region_matches reg x y button =
     (reg_x reg \<le> x \<and> x < reg_x reg + reg_w reg \<and> reg_y reg \<le> y \<and> y < reg_y reg + reg_h reg
      \<and> button \<in> dom (buttonfuncs reg))"


text \<open>A top-level window that accepts every write, for evaluating on concrete regions.\<close>

definition toplevel_ops :: "unit window_ops" where
  "toplevel_ops = \<lparr>getmaxyx = (\<lambda>s. (24, 80)), getparyx = (\<lambda>s. (-1, -1)),
                    addstr = (\<lambda>s y x t a. Inr s)\<rparr>"

section \<open>Renderer\<close>

text \<open>
  \<open>ColorAttr\<close>, \<open>update_attr\<close> and \<open>colors.get_color\<close> are imported from elsewhere in the
  package. \<open>clipdraw\<close> builds a \<open>ColorAttr\<close> from four positional values and reads its
  field \<open>attr\<close>; \<open>update_attr\<close> and \<open>get_color\<close> are parameters, together with the
  character database, the options and the window methods.
\<close>

record ColorAttr =
  color :: int
  attributes :: int
  precedence :: int
  attr :: int

datatype attr_arg = PlainAttr int | FullAttr ColorAttr

record 'scr draw_env =
  env_ucd :: unicodedata
  env_options :: options
  env_ops :: "'scr window_ops"
  update_attr :: "ColorAttr \<Rightarrow> ColorAttr \<Rightarrow> int \<Rightarrow> ColorAttr"
  get_color :: "pystr \<Rightarrow> ColorAttr"

text \<open>
  The locals of \<open>clipdraw\<close> that change from chunk to chunk, with the window and
  \<open>vd.mousereg\<close>, which the loop writes to.
\<close>

record ('scr, 'f) draw_locals =
  cur_x :: int
  totaldispw :: int
  cattr :: ColorAttr
  link :: pystr
  cur_scr :: "'scr option"
  cur_mousereg :: "('scr, 'f) mouse_region list"

text \<open>
  How one pass through the body of the \<open>for\<close> loop ends: at its end or at a
  \<open>continue\<close>, at the \<open>break\<close>, at a \<open>return\<close>, or with an exception.
\<close>

datatype ('scr, 'f) step =
    Continue "('scr, 'f) draw_locals"
  | Break "('scr, 'f) draw_locals"
  | Return int "('scr, 'f) draw_locals"
  | Raise py_error "('scr, 'f) draw_locals"

text \<open>
  The writes of one chunk: right to left, the clipped text alone; left to right, the
  blank fill first when \<open>clear\<close> is set. A write that raises leaves the window as the
  writes before it made it.
\<close>

definition draw_writes ::
  "'scr window_ops \<Rightarrow> 'scr \<Rightarrow> int \<Rightarrow> int \<Rightarrow> int \<Rightarrow> pystr \<Rightarrow> int \<Rightarrow> int \<Rightarrow> bool \<Rightarrow> bool \<Rightarrow>
   py_error \<times> 'scr + 'scr" where
  "draw_writes ops sc y x chunkw clipped dispw a rtl clear =
     (if rtl then
        (case addstr ops sc y (x - dispw - 1) clipped a of
           Inl e \<Rightarrow> Inl (e, sc) | Inr sc1 \<Rightarrow> Inr sc1)
      else if clear then
        (case addstr ops sc y x (replicate (nat chunkw) 32) a of
           Inl e \<Rightarrow> Inl (e, sc)
         | Inr sc1 \<Rightarrow>
             (case addstr ops sc1 y x clipped a of
                Inl e \<Rightarrow> Inl (e, sc1) | Inr sc2 \<Rightarrow> Inr sc2))
      else
        (case addstr ops sc y x clipped a of
           Inl e \<Rightarrow> Inl (e, sc) | Inr sc1 \<Rightarrow> Inr sc1))"

text \<open>
  The body of the loop. \<open>vd.onMouse(scr, x, y, dispw, 1, ...)\<close> passes its positional
  arguments to the parameters \<open>(scr, y, x, h, w)\<close> of \<open>onMouse\<close> in that order.
  \<open>dispwidth(chunk, maxwidth=...)\<close> is called without \<open>literal\<close>.
\<close>

definition clipdraw_chunk ::
  "'scr draw_env \<Rightarrow> int \<Rightarrow> ColorAttr \<Rightarrow> int option \<Rightarrow> bool \<Rightarrow> bool \<Rightarrow> pystr option \<Rightarrow>
   pystr option \<Rightarrow> int \<Rightarrow> ('scr, 'f) draw_locals \<Rightarrow> pystr \<times> pystr \<Rightarrow> ('scr, 'f) step" where
  "clipdraw_chunk E y origattr origw clear rtl truncator oddspace windowWidth L ch =
     (let colorname0 = fst ch; chunk = snd ch;
          onclick = prefix (ustr ''onclick'') colorname0;
          link1 = (if onclick then colorname0 else link L);
          colorname = (if onclick then ustr ''clickable'' else colorname0)
      in if colorname = ustr '':'' then Continue (L\<lparr>link := [], cattr := origattr\<rparr>)
         else
           (let cattr1 = (if colorname \<noteq> []
                          then update_attr E (cattr L) (get_color E colorname) 8
                          else cattr L);
                L1 = L\<lparr>link := link1, cattr := cattr1\<rparr>
            in if chunk = [] then Continue L1
               else
                 (let chunkw0 = (case origw of
                                   None \<Rightarrow> dispwidth (env_ucd E) (disp_ambig_width (env_options E))
                                             chunk (Some (windowWidth - totaldispw L)) False
                                 | Some w \<Rightarrow> w);
                      chunkw = min chunkw0 (if rtl then cur_x L - 1 else windowWidth - cur_x L - 1)
                  in if chunkw \<le> 0 then Return (totaldispw L) L1
                     else
                       (case cur_scr L of
                          None \<Rightarrow> Return (totaldispw L) L1
                        | Some sc \<Rightarrow>
                            (case clipstr (env_ucd E) (env_options E) chunk chunkw truncator oddspace of
                               Inl e \<Rightarrow> Raise e L1
                             | Inr (clipped, dispw) \<Rightarrow>
                                 (case draw_writes (env_ops E) sc y (cur_x L) chunkw clipped dispw
                                         (attr cattr1) rtl clear of
                                    Inl (e, sc1) \<Rightarrow> Raise e (L1\<lparr>cur_scr := Some sc1\<rparr>)
                                  | Inr sc1 \<Rightarrow>
                                      (let regs = (if link1 \<noteq> []
                                                   then onMouse (env_ops E) (cur_mousereg L) sc1
                                                          (cur_x L) y dispw 1 []
                                                          [ustr ''BUTTON1_RELEASED'' \<mapsto> CmdStr link1]
                                                   else cur_mousereg L);
                                           L2 = L1\<lparr>cur_scr := Some sc1, cur_mousereg := regs,
                                                    cur_x := cur_x L + dispw,
                                                    totaldispw := totaldispw L + dispw\<rparr>
                                       in if chunkw < dispw then Break L2 else Continue L2)))))))"

fun clipdraw_loop ::
  "'scr draw_env \<Rightarrow> int \<Rightarrow> ColorAttr \<Rightarrow> int option \<Rightarrow> bool \<Rightarrow> bool \<Rightarrow> pystr option \<Rightarrow>
   pystr option \<Rightarrow> int \<Rightarrow> ('scr, 'f) draw_locals \<Rightarrow> (pystr \<times> pystr) list \<Rightarrow> ('scr, 'f) step" where
  "clipdraw_loop E y origattr origw clear rtl truncator oddspace windowWidth L [] = Continue L"
| "clipdraw_loop E y origattr origw clear rtl truncator oddspace windowWidth L (ch # chunks) =
     (case clipdraw_chunk E y origattr origw clear rtl truncator oddspace windowWidth L ch of
        Continue L' \<Rightarrow>
          clipdraw_loop E y origattr origw clear rtl truncator oddspace windowWidth L' chunks
      | Break L' \<Rightarrow> Break L'
      | Return v L' \<Rightarrow> Return v L'
      | Raise e L' \<Rightarrow> Raise e L')"

text \<open>The locals as \<open>clipdraw\<close> sets them before the \<open>try\<close>, and the window width.\<close>

definition clipdraw_init ::
  "'scr option \<Rightarrow> int \<Rightarrow> attr_arg \<Rightarrow> ('scr, 'f) mouse_region list \<Rightarrow> ('scr, 'f) draw_locals" where
  "clipdraw_init scr x a mreg =
     \<lparr>cur_x = x, totaldispw = 0,
      cattr = (case a of PlainAttr n \<Rightarrow> \<lparr>color = n, attributes = 0, precedence = 0, attr = n\<rparr>
                       | FullAttr c \<Rightarrow> c),
      link = [], cur_scr = scr, cur_mousereg = mreg\<rparr>"

definition clipdraw_width :: "'scr draw_env \<Rightarrow> 'scr option \<Rightarrow> int" where
  "clipdraw_width E scr = (case scr of Some sc \<Rightarrow> snd (getmaxyx (env_ops E) sc) | None \<Rightarrow> 80)"

text \<open>
  \<open>clipdraw\<close>: the value returned or the exception raised, with the window and the
  registry as the call leaves them. \<open>except Exception\<close> catches whatever the loop
  raised, and raises it again only when \<open>options.debug\<close> is set.
\<close>

definition clipdraw ::
  "'scr draw_env \<Rightarrow> ('scr, 'f) mouse_region list \<Rightarrow> 'scr option \<Rightarrow> int \<Rightarrow> int \<Rightarrow> pystr \<Rightarrow>
   attr_arg \<Rightarrow> int option \<Rightarrow> bool \<Rightarrow> bool \<Rightarrow> bool \<Rightarrow> pystr option \<Rightarrow> pystr option \<Rightarrow>
   (py_error + int) \<times> 'scr option \<times> ('scr, 'f) mouse_region list" where
  "clipdraw E mreg scr y x s a w clear rtl literal truncator oddspace =
     (let L0 = clipdraw_init scr x a mreg
      in case clipdraw_loop E y (cattr L0) w clear rtl truncator oddspace (clipdraw_width E scr)
                L0 (iterchunks s literal) of
           Continue L \<Rightarrow> (Inr (totaldispw L), cur_scr L, cur_mousereg L)
         | Break L \<Rightarrow> (Inr (totaldispw L), cur_scr L, cur_mousereg L)
         | Return v L \<Rightarrow> (Inr v, cur_scr L, cur_mousereg L)
         | Raise e L \<Rightarrow>
             (if debug (env_options E) then (Inl e, cur_scr L, cur_mousereg L)
              else (Inr (totaldispw L), cur_scr L, cur_mousereg L)))"

text \<open>
  A window for evaluating \<open>clipdraw\<close>: 24 rows of 80 columns, top-level, whose state is
  the number of writes it still accepts; the write after the last raises
  \<open>curses.error\<close>.
\<close>

definition budget_ops :: "nat window_ops" where
  "budget_ops = \<lparr>getmaxyx = (\<lambda>s. (24, 80)), getparyx = (\<lambda>s. (-1, -1)),
                  addstr = (\<lambda>s y x t a. if s = 0 then Inl CursesError else Inr (s - 1))\<rparr>"

definition budget_env :: "bool \<Rightarrow> nat draw_env" where
  "budget_env dbg =
     \<lparr>env_ucd = ucd,
      env_options = \<lparr>disp_ambig_width = 1, visibility = 0, disp_truncator = [0x2026],
                     disp_oddspace = [0xB7], debug = dbg\<rparr>,
      env_ops = budget_ops,
      update_attr = (\<lambda>c d n. d),
      get_color = (\<lambda>n. \<lparr>color = 1, attributes = 0, precedence = 0, attr = 1\<rparr>)\<rparr>"

section \<open>Word-wrapper\<close>

text \<open>
  \<open>_markdown_to_internal\<close> is four \<open>re.sub\<close> passes, each replacing the leftmost matches
  from left to right. In \<open>(.*?)\<close> the dot matches any character but the newline, and
  the lazy star takes the closing delimiter nearest to the opening one.
  \<open>find_char d\<close> scans \<open>(.*?)d\<close> for a one-character delimiter, \<open>find_pair d\<close> scans
  \<open>(.*?)dd\<close>: the text matched by the group, and the text after the match.
\<close>

fun find_char :: "codepoint \<Rightarrow> pystr \<Rightarrow> (pystr \<times> pystr) option" where
  "find_char d [] = None"
| "find_char d (c # cs) =
     (if c = d then Some ([], cs)
      else if c = 10 then None
      else (case find_char d cs of
              None \<Rightarrow> None
            | Some (inner, rest) \<Rightarrow> Some (c # inner, rest)))"

fun find_pair :: "codepoint \<Rightarrow> pystr \<Rightarrow> (pystr \<times> pystr) option" where
  "find_pair d [] = None"
| "find_pair d [c] = None"
| "find_pair d (c # c' # cs) =
     (if c = d \<and> c' = d then Some ([], cs)
      else if c = 10 then None
      else (case find_pair d (c' # cs) of
              None \<Rightarrow> None
            | Some (inner, rest) \<Rightarrow> Some (c # inner, rest)))"

text \<open>
  \<open>\b_(.*?)_\b\<close>: \<open>_\<close> is itself a word character, so the closing \<open>_\<close> stands at a word
  boundary when the text ends after it or goes on with a character that is not a word
  character. Which characters \<open>\w\<close> matches is the regular expression engine's: the
  parameter \<open>is_word\<close>.
\<close>

fun find_underscore :: "(codepoint \<Rightarrow> bool) \<Rightarrow> pystr \<Rightarrow> (pystr \<times> pystr) option" where
  "find_underscore is_word [] = None"
| "find_underscore is_word (c # cs) =
     (if c = 95 \<and> (case cs of [] \<Rightarrow> True | n # ns \<Rightarrow> \<not> is_word n) then Some ([], cs)
      else if c = 10 then None
      else (case find_underscore is_word cs of
              None \<Rightarrow> None
            | Some (inner, rest) \<Rightarrow> Some (c # inner, rest)))"

lemma find_char_length:
  "find_char d cs = Some (inner, rest) \<Longrightarrow> length rest < length cs"
  by (induction cs arbitrary: inner rest) (auto split: if_splits option.splits)

lemma find_pair_length:
  "find_pair d cs = Some (inner, rest) \<Longrightarrow> length rest < length cs"
  by (induction d cs arbitrary: inner rest rule: find_pair.induct)
     (auto split: if_splits option.splits)

lemma find_underscore_length:
  "find_underscore is_word cs = Some (inner, rest) \<Longrightarrow> length rest < length cs"
  by (induction cs arbitrary: inner rest) (auto split: if_splits option.splits)

text \<open>\<open>re.sub(r'd(.*?)d', r'[:tag]\1[:]', text)\<close> for a one-character delimiter \<open>d\<close>.\<close>

function sub_char :: "codepoint \<Rightarrow> pystr \<Rightarrow> pystr \<Rightarrow> pystr" where
  "sub_char d tag [] = []"
| "sub_char d tag (c # cs) =
     (case (if c = d then find_char d cs else None) of
        Some (inner, rest) \<Rightarrow> tag @ inner @ ustr ''[:]'' @ sub_char d tag rest
      | None \<Rightarrow> c # sub_char d tag cs)"
  by pat_completeness auto
termination
proof (relation "measure (\<lambda>(d, tag, s). length s)")
  show "wf (measure (\<lambda>(d, tag, s). length s))" by simp
next
  fix d c :: codepoint and tag cs :: pystr and x2 :: "pystr \<times> pystr" and inner rest :: pystr
  assume "(if c = d then find_char d cs else None) = Some x2" and "(inner, rest) = x2"
  then have "find_char d cs = Some (inner, rest)" by (auto split: if_splits)
  then have "length rest < length cs" by (rule find_char_length)
  then show "((d, tag, rest), (d, tag, c # cs)) \<in> measure (\<lambda>(d, tag, s). length s)" by simp
next
  fix d c :: codepoint and tag cs :: pystr
  show "((d, tag, cs), (d, tag, c # cs)) \<in> measure (\<lambda>(d, tag, s). length s)" by simp
qed

text \<open>\<open>re.sub(r'dd(.*?)dd', r'[:tag]\1[:]', text)\<close>.\<close>

function sub_pair :: "codepoint \<Rightarrow> pystr \<Rightarrow> pystr \<Rightarrow> pystr" where
  "sub_pair d tag [] = []"
| "sub_pair d tag (c # cs) =
     (case (if c = d \<and> take 1 cs = [d] then find_pair d (drop 1 cs) else None) of
        Some (inner, rest) \<Rightarrow> tag @ inner @ ustr ''[:]'' @ sub_pair d tag rest
      | None \<Rightarrow> c # sub_pair d tag cs)"
  by pat_completeness auto
termination
proof (relation "measure (\<lambda>(d, tag, s). length s)")
  show "wf (measure (\<lambda>(d, tag, s). length s))" by simp
next
  fix d c :: codepoint and tag cs :: pystr and x2 :: "pystr \<times> pystr" and inner rest :: pystr
  assume "(if c = d \<and> take 1 cs = [d] then find_pair d (drop 1 cs) else None) = Some x2"
    and "(inner, rest) = x2"
  then have "find_pair d (drop 1 cs) = Some (inner, rest)" by (auto split: if_splits)
  then have "length rest < length (drop 1 cs)" by (rule find_pair_length)
  then show "((d, tag, rest), (d, tag, c # cs)) \<in> measure (\<lambda>(d, tag, s). length s)" by simp
next
  fix d c :: codepoint and tag cs :: pystr
  show "((d, tag, cs), (d, tag, c # cs)) \<in> measure (\<lambda>(d, tag, s). length s)" by simp
qed

text \<open>
  \<open>re.sub(r'\b_(.*?)_\b', r'[:underline]\1[:]', text)\<close>. \<open>prev_word\<close> tells whether the
  character before the position is a word character (false at the start); the opening
  \<open>_\<close> stands at a word boundary when it is not.
\<close>

function sub_underscore :: "(codepoint \<Rightarrow> bool) \<Rightarrow> bool \<Rightarrow> pystr \<Rightarrow> pystr" where
  "sub_underscore is_word prev_word [] = []"
| "sub_underscore is_word prev_word (c # cs) =
     (case (if c = 95 \<and> \<not> prev_word then find_underscore is_word cs else None) of
        Some (inner, rest) \<Rightarrow>
          ustr ''[:underline]'' @ inner @ ustr ''[:]'' @ sub_underscore is_word True rest
      | None \<Rightarrow> c # sub_underscore is_word (is_word c) cs)"
  by pat_completeness auto
termination
proof (relation "measure (\<lambda>(f, p, s). length s)")
  show "wf (measure (\<lambda>(f, p, s). length s))" by simp
next
  fix is_word :: "codepoint \<Rightarrow> bool" and prev_word :: bool and c :: codepoint and cs :: pystr
    and x2 :: "pystr \<times> pystr" and inner rest :: pystr
  assume "(if c = 95 \<and> \<not> prev_word then find_underscore is_word cs else None) = Some x2"
    and "(inner, rest) = x2"
  then have "find_underscore is_word cs = Some (inner, rest)" by (auto split: if_splits)
  then have "length rest < length cs" by (rule find_underscore_length)
  then show "((is_word, True, rest), (is_word, prev_word, c # cs)) \<in> measure (\<lambda>(f, p, s). length s)"
    by simp
next
  fix is_word :: "codepoint \<Rightarrow> bool" and prev_word :: bool and c :: codepoint and cs :: pystr
  show "((is_word, is_word c, cs), (is_word, prev_word, c # cs)) \<in> measure (\<lambda>(f, p, s). length s)"
    by simp
qed

definition priv_markdown_to_internal :: "(codepoint \<Rightarrow> bool) \<Rightarrow> pystr \<Rightarrow> pystr" where
  "priv_markdown_to_internal is_word text =
     sub_underscore is_word False
       (sub_char 42 (ustr ''[:italic]'')
          (sub_pair 42 (ustr ''[:bold]'')
             (sub_char 96 (ustr ''[:code]'') text)))"

text \<open>
  \<open>str.splitlines()\<close>: the text between line boundaries, \<open>\r\n\<close> counting as one
  boundary (\<open>cr\<close>: the character before was \<open>\r\<close>); no empty last line.
\<close>

definition is_linebreak :: "codepoint \<Rightarrow> bool" where
  "is_linebreak c = ((10 \<le> c \<and> c \<le> 13) \<or> (28 \<le> c \<and> c \<le> 30) \<or> c = 0x85
      \<or> c = 0x2028 \<or> c = 0x2029)"

fun splitlines_from :: "bool \<Rightarrow> pystr \<Rightarrow> pystr \<Rightarrow> pystr list" where
  "splitlines_from cr cur [] = (if cur = [] then [] else [cur])"
| "splitlines_from cr cur (c # cs) =
     (if cr \<and> c = 10 then splitlines_from False cur cs
      else if is_linebreak c then cur # splitlines_from (c = 13) [] cs
      else splitlines_from False (cur @ [c]) cs)"

definition splitlines :: "pystr \<Rightarrow> pystr list" where
  "splitlines text = splitlines_from False [] text"

text \<open>
  \<open>textwrap.wrap(text, width=width, drop_whitespace=False)\<close> is the standard library's.
  It first expands tabs (to columns that are multiples of 8) and replaces each of the
  whitespace characters \<open>\t \n \x0b \x0c \r\<close> by a space; it raises \<open>ValueError\<close> when
  \<open>width\<close> is not positive; a text that fits in \<open>width\<close> columns is returned as one line
  (none when it is empty), whitespace included. How it breaks a longer text into lines
  is the parameter \<open>long_wrap\<close>.
\<close>

fun expandtabs_from :: "nat \<Rightarrow> pystr \<Rightarrow> pystr" where
  "expandtabs_from col [] = []"
| "expandtabs_from col (c # cs) =
     (if c = 9 then replicate (8 - col mod 8) 32 @ expandtabs_from 0 cs
      else if c = 10 \<or> c = 13 then c # expandtabs_from 0 cs
      else c # expandtabs_from (Suc col) cs)"

definition munge_whitespace :: "pystr \<Rightarrow> pystr" where
  "munge_whitespace text =
     map (\<lambda>c. if (9 \<le> c \<and> c \<le> 13) \<or> c = 32 then 32 else c) (expandtabs_from 0 text)"

definition textwrap_wrap ::
  "(pystr \<Rightarrow> int \<Rightarrow> pystr list) \<Rightarrow> pystr \<Rightarrow> int \<Rightarrow> py_error + pystr list" where
  "textwrap_wrap long_wrap text width =
     (if width \<le> 0 then Inl ValueError
      else if munge_whitespace text = [] then Inr []
      else if int (length (munge_whitespace text)) \<le> width then Inr [munge_whitespace text]
      else Inr (long_wrap (munge_whitespace text) width))"

text \<open>
  The \<open>while chunks\<close> loop of \<open>wraptext\<close> for one wrapped line: the formatted line \<open>r\<close>
  and the chunks left for the next line.
\<close>

fun wrap_line_loop :: "pystr list \<Rightarrow> pystr \<Rightarrow> pystr \<Rightarrow> pystr \<times> pystr list" where
  "wrap_line_loop [] txt r = (r, [])"
| "wrap_line_loop [c] txt r =
     (if length c > length txt then (r @ txt, [drop (length txt) c])
      else wrap_line_loop [] (drop (length c) txt) (r @ c))"
| "wrap_line_loop (c # m # chunks) txt r =
     (if length c > length txt then (r @ txt, drop (length txt) c # m # chunks)
      else wrap_line_loop chunks (drop (length c) txt) (r @ take (length c) txt @ m))"

text \<open>The \<open>for linenum, textline in enumerate(...)\<close> loop: the pairs yielded, the chunks left.\<close>

fun wrap_lines ::
  "pystr \<Rightarrow> nat \<Rightarrow> pystr list \<Rightarrow> pystr list \<Rightarrow> (pystr \<times> pystr) list \<times> pystr list" where
  "wrap_lines indent linenum chunks [] = ([], chunks)"
| "wrap_lines indent linenum chunks (textline # textlines) =
     (let (r, chunks1) = wrap_line_loop chunks textline [];
          r1 = (if linenum > 0 then indent @ r else r);
          (ys, chunks2) = wrap_lines indent (Suc linenum) chunks1 textlines
      in ((r1, textline) # ys, chunks2))"

text \<open>
  \<open>textchunks\<close>: the line's text without its style markers, as \<open>wraptext\<close> joins it for
  \<open>textwrap.wrap\<close>.
\<close>

definition textchunks :: "pystr list \<Rightarrow> pystr list" where
  "textchunks chunks =
     filter (\<lambda>x. \<not> (prefix (ustr ''[:'') x \<and> suffix (ustr '']'') x)) chunks"


text \<open>The pairs \<open>wraptext\<close> yields for one line of the text.\<close>

definition wraptext_line ::
  "(pystr \<Rightarrow> int \<Rightarrow> pystr list) \<Rightarrow> (codepoint \<Rightarrow> bool) \<Rightarrow> pystr \<Rightarrow> int \<Rightarrow> pystr \<Rightarrow>
   py_error + (pystr \<times> pystr) list" where
  "wraptext_line long_wrap is_word line width indent =
     (if line = [] then Inr [([], [])]
      else
        (let chunks = re_split (priv_markdown_to_internal is_word line)
         in case textwrap_wrap long_wrap (concat (textchunks chunks)) width of
              Inl e \<Rightarrow> Inl e
            | Inr textlines \<Rightarrow>
                (let (ys, chunks1) = wrap_lines indent 0 chunks textlines
                 in Inr (ys @ map (\<lambda>c. (c, [])) chunks1))))"

text \<open>
  \<open>wraptext\<close> is a generator: the pairs of the lines before the one on which
  \<open>textwrap.wrap\<close> raises have been yielded when the exception comes.
\<close>

fun wraptext_lines ::
  "(pystr \<Rightarrow> int \<Rightarrow> pystr list) \<Rightarrow> (codepoint \<Rightarrow> bool) \<Rightarrow> pystr list \<Rightarrow> int \<Rightarrow> pystr \<Rightarrow>
   (pystr \<times> pystr) list \<times> py_error option" where
  "wraptext_lines long_wrap is_word [] width indent = ([], None)"
| "wraptext_lines long_wrap is_word (line # lines) width indent =
     (case wraptext_line long_wrap is_word line width indent of
        Inl e \<Rightarrow> ([], Some e)
      | Inr ys \<Rightarrow>
          (case wraptext_lines long_wrap is_word lines width indent of
             (zs, err) \<Rightarrow> (ys @ zs, err)))"

definition wraptext ::
  "(pystr \<Rightarrow> int \<Rightarrow> pystr list) \<Rightarrow> (codepoint \<Rightarrow> bool) \<Rightarrow> pystr \<Rightarrow> int \<Rightarrow> pystr \<Rightarrow>
   (pystr \<times> pystr) list \<times> py_error option" where
  "wraptext long_wrap is_word text width indent =
     wraptext_lines long_wrap is_word (splitlines text) width indent"



section \<open>Evaluation rules\<close>

lemmas eval_defs =
  ustr_def priv_clipstr_def priv_dispch_def dispwidth_def iterchunks_def iterchunk_def
  wcwidth_def ZERO_WIDTH_CF_def truthy_def ucd_def ucd_east_asian_width_def
  ucd_category_def ucd_name_def str_in_def sublist_Cons_right Let_def suffix_to_prefix

section \<open>The width of the characters of \<open>ZERO_WIDTH_CF\<close>\<close>

text \<open>
  C2, as the specification states it: \<open>wcwidth\<close> returns 0 on every code point of
  \<open>ZERO_WIDTH_CF\<close>. The first test of \<open>wcwidth\<close> returns 1 on them: on U+200B (zero
  width space) the result is 1, not 0.
\<close>

theorem wcwidth_zero_width_counterexample:
  "(0x200B::nat) \<in> ZERO_WIDTH_CF \<and> wcwidth ucd 0x200B 1 = 1 \<and> wcwidth ucd 0x200B 1 \<noteq> 0"
  by (simp add: wcwidth_def ZERO_WIDTH_CF_def)

text \<open>
  C2, amended: for every code point of \<open>ZERO_WIDTH_CF\<close>, every character database and
  every ambiguous-width policy value, \<open>wcwidth\<close> returns 1 (the cell that \<open>_dispch\<close>
  also counts for the character's substitute).
\<close>

theorem wcwidth_zero_width_cf:
  assumes "cc \<in> ZERO_WIDTH_CF"
  shows "wcwidth U cc ambig = 1"
  using assms by (simp add: wcwidth_def)

theorem wcwidth_zero_width_cf_witness:
  "(0x2060::nat) \<in> ZERO_WIDTH_CF \<and> wcwidth ucd 0x2060 2 = 1"
proof -
  have m: "(0x2060::nat) \<in> ZERO_WIDTH_CF" by (simp add: ZERO_WIDTH_CF_def)
  from wcwidth_zero_width_cf [OF m, of ucd 2] m show ?thesis by simp
qed

section \<open>The segmenter yields a style token or a literal, never both\<close>

lemma iterchunk_exclusive:
  assumes "(tok, lit) \<in> set (iterchunk literal chunk)"
  shows "(tok \<noteq> [] \<and> lit = [] \<and> \<not> literal) \<or> (tok = [] \<and> lit \<noteq> [])"
  using assms by (auto simp: iterchunk_def ustr_def split: if_splits)

text \<open>
  C10: every pair \<open>(tok, lit)\<close> that \<open>iterchunks\<close> yields, for any string and either
  value of \<open>literal\<close>, has exactly one non-empty component; \<open>('', '')\<close> is never
  yielded; with \<open>literal\<close> set every pair is a literal (empty token, non-empty text).
\<close>

theorem iterchunks_exclusive:
  assumes "(tok, lit) \<in> set (iterchunks s literal)"
  shows "((tok \<noteq> [] \<and> lit = []) \<or> (tok = [] \<and> lit \<noteq> []))
         \<and> (tok, lit) \<noteq> ([], [])
         \<and> (literal \<longrightarrow> tok = [] \<and> lit \<noteq> [])"
proof -
  from assms obtain chunk where "(tok, lit) \<in> set (iterchunk literal chunk)"
    by (auto simp: iterchunks_def)
  from iterchunk_exclusive [OF this] show ?thesis by auto
qed

theorem iterchunks_exclusive_witness:
  "(ustr ''x'', []) \<in> set (iterchunks (ustr ''ab[:x]cd'') False)
   \<and> ustr ''x'' \<noteq> []
   \<and> ([], ustr ''[:x]'') \<in> set (iterchunks (ustr ''ab[:x]cd'') True)
   \<and> ustr ''[:x]'' \<noteq> []"
proof -
  have a: "(ustr ''x'', []) \<in> set (iterchunks (ustr ''ab[:x]cd'') False)"
    by (simp add: eval_defs)
  have b: "([], ustr ''[:x]'') \<in> set (iterchunks (ustr ''ab[:x]cd'') True)"
    by (simp add: eval_defs)
  from iterchunks_exclusive [OF a] iterchunks_exclusive [OF b] a b show ?thesis by simp
qed

section \<open>The width \<open>_clipstr\<close> returns with a truncated string\<close>

text \<open>
  C1: clipping \<open>hello world\<close> to width 5 with the truncator U+2026 should give
  \<open>hell\<close> followed by the truncator, with display width 5, and the returned width
  should never exceed the bound. \<open>_clipstr\<close> returns that string, but with the width 7:
  at the sixth character \<open>w\<close> is 6, which exceeds \<open>dispw - trunchlen + 1 = 5\<close>; the last
  two characters of \<open>ret\<close> are replaced by the truncator and the truncator's width is
  added to \<open>w\<close>, from which the width of the two characters removed is not taken off.
  The display width of the string returned is 5, as \<open>dispwidth\<close> measures it.
\<close>

theorem clipstr_hello_world:
  "priv_clipstr ucd 1 (ustr ''hello world'') 5 [0x2026] [] [] []
     = Inr (ustr ''hell'' @ [0x2026], 7)
   \<and> dispwidth ucd 1 (ustr ''hell'' @ [0x2026]) None False = 5"
  by (simp add: eval_defs)

section \<open>\<open>dispwidth\<close> beyond \<open>maxwidth\<close>\<close>

text \<open>
  C4: once the running sum exceeds \<open>maxwidth\<close> no later character should contribute.
  On \<open>ab[:x]cd\<close> with \<open>maxwidth = 1\<close> the sum passes 1 at \<open>b\<close> (2 cells), and the
  \<open>break\<close> leaves the loop over the characters of that chunk only: the next literal
  chunk adds the width of \<open>c\<close>, and the result is 3. The widths summed up to and
  including \<open>b\<close>, the first character past \<open>maxwidth\<close>, are 2: what \<open>dispwidth\<close> gives
  for \<open>ab\<close> alone.
\<close>

theorem dispwidth_break_leaves_inner_loop:
  "dispwidth ucd 1 (ustr ''ab[:x]cd'') (Some 1) False = 3
   \<and> dispwidth ucd 1 (ustr ''ab'') (Some 1) False = 2"
  by (simp add: eval_defs)

section \<open>Clipping a text that fits\<close>

lemma re_split_single: "re_split [c] = [[c]]"
  by simp
















section \<open>A decode failure in \<open>handleMouse\<close>\<close>

text \<open>
  C8: when \<open>curses.getmouse()\<close> raises \<open>curses.error\<close>, \<open>handleMouse\<close> should resolve no
  event and return normally. The \<open>except\<close> clause catches the error, and the
  \<open>return r.keystroke\<close> after it raises \<open>UnboundLocalError\<close>, for every state and
  every sheet: \<open>r\<close> was never assigned.
\<close>

theorem handleMouse_decode_failure:
  "fst (handleMouse A C ops (Inl CursesError) sheet vd) = Inl UnboundLocalError"
  by (simp add: handleMouse_def handleMouse_try_def parseMouse_def Let_def)

section \<open>Hit-testing in reverse order of registration\<close>

lemma getMouse_loop_append:
  "getMouse_loop (xs @ ys) x y button =
     (case getMouse_loop xs x y button of Some f \<Rightarrow> Some f | None \<Rightarrow> getMouse_loop ys x y button)"
  by (induction xs) (auto split: option.splits)

lemma getMouse_loop_no_match:
  "\<forall>q\<in>set regs. \<not> region_matches q x y button \<Longrightarrow> getMouse_loop regs x y button = None"
  by (induction regs) (auto simp: region_matches_def)

text \<open>
  C5: the lookup searches the registry in reverse order of registration and returns
  the command of the first region that holds the point and maps the keystroke. So of
  two such regions \<open>r1\<close>, registered earlier, and \<open>r2\<close>, registered later, it is the
  command of \<open>r2\<close> that is returned, whatever else was registered before or between
  them, when no region registered after \<open>r2\<close> matches as well.
\<close>

theorem getMouse_latest_wins:
  assumes "region_matches r1 x y button" and "region_matches r2 x y button"
    and "\<forall>q\<in>set later. \<not> region_matches q x y button"
  shows "getMouse (earlier @ r1 # between @ r2 # later) scr x y button = buttonfuncs r2 button"
proof -
  have "getMouse_loop (rev later) x y button = None"
    using assms(3) by (intro getMouse_loop_no_match) simp
  moreover have "getMouse_loop (r2 # rev between @ r1 # rev earlier) x y button = buttonfuncs r2 button"
    using assms(2) by (simp add: region_matches_def)
  moreover from assms(2) obtain f where "buttonfuncs r2 button = Some f"
    by (auto simp: region_matches_def)
  ultimately show ?thesis
    by (simp add: getMouse_def getMouse_loop_append)
qed

text \<open>
  Two overlapping regions registered with \<open>onMouse\<close> on a top-level window (curses
  reports the parent origin \<open>(-1, -1)\<close> for it), both mapping \<open>BUTTON1_RELEASED\<close>: at
  the point \<open>(3, 3)\<close>, which both hold, the second command is returned.
\<close>

theorem getMouse_latest_wins_witness:
  "getMouse
     (onMouse toplevel_ops
        (onMouse toplevel_ops [] () 0 0 5 5 [] [ustr ''BUTTON1_RELEASED'' \<mapsto> CmdStr (ustr ''first'')])
        () 2 2 5 5 [] [ustr ''BUTTON1_RELEASED'' \<mapsto> CmdStr (ustr ''second'')])
     None 3 3 (ustr ''BUTTON1_RELEASED'')
   = Some (CmdStr (ustr ''second'') :: unit command)"
proof -
  let ?b = "ustr ''BUTTON1_RELEASED''"
  let ?r1 = "\<lparr>winname = [], winscr = (), reg_y = 0, reg_x = 0, reg_h = 5, reg_w = 5,
               buttonfuncs = [?b \<mapsto> CmdStr (ustr ''first'') :: unit command]\<rparr>"
  let ?r2 = "\<lparr>winname = [], winscr = (), reg_y = 2, reg_x = 2, reg_h = 5, reg_w = 5,
               buttonfuncs = [?b \<mapsto> CmdStr (ustr ''second'') :: unit command]\<rparr>"
  have regs: "onMouse toplevel_ops (onMouse toplevel_ops [] () 0 0 5 5 [] (buttonfuncs ?r1))
                () 2 2 5 5 [] (buttonfuncs ?r2) = [] @ ?r1 # [] @ ?r2 # []"
    by (simp add: onMouse_def toplevel_ops_def)
  have m1: "region_matches ?r1 3 3 ?b" by (simp add: region_matches_def)
  have m2: "region_matches ?r2 3 3 ?b" by (simp add: region_matches_def)
  have m3: "\<forall>q\<in>set []. \<not> region_matches q 3 3 ?b" by simp
  from getMouse_latest_wins [OF m1 m2 m3, of "[]" "[]" None] regs show ?thesis by simp
qed

section \<open>The offset of a region registered on a sub-window\<close>

text \<open>
  C6: a region registered on a sub-window whose parent origin is \<open>(py, px)\<close> should be
  stored at \<open>(y + py, x + px)\<close>. \<open>onMouse\<close> shifts both coordinates only when \<open>py > 0\<close>:
  on a sub-window in the first row of its parent, five columns in (\<open>getparyx()\<close> gives
  \<open>(0, 5)\<close>), a region registered at \<open>(1, 2)\<close> is stored at \<open>(1, 2)\<close>, not at \<open>(1, 7)\<close>.
\<close>

theorem onMouse_first_row_subwindow:
  "map (\<lambda>r. (reg_y r, reg_x r))
     (onMouse \<lparr>getmaxyx = (\<lambda>s. (10, 20)), getparyx = (\<lambda>s. (0, 5)),
                addstr = (\<lambda>s y x t a. Inr s)\<rparr>
        [] () 1 2 1 4 [] (Map.empty :: pystr \<rightharpoonup> unit command))
   = [(1, 2)]"
  by (simp add: onMouse_def)

section \<open>Errors of the drawing surface in \<open>clipdraw\<close>\<close>

lemma clipdraw_loop_append:
  "clipdraw_loop E y origattr origw clear rtl truncator oddspace windowWidth L (pre @ rest) =
     (case clipdraw_loop E y origattr origw clear rtl truncator oddspace windowWidth L pre of
        Continue L' \<Rightarrow>
          clipdraw_loop E y origattr origw clear rtl truncator oddspace windowWidth L' rest
      | Break L' \<Rightarrow> Break L'
      | Return v L' \<Rightarrow> Return v L'
      | Raise e L' \<Rightarrow> Raise e L')"
  by (induction pre arbitrary: L) (auto split: step.splits)

lemma clipdraw_chunk_raise_total:
  assumes "clipdraw_chunk E y origattr origw clear rtl truncator oddspace windowWidth L ch = Raise e L'"
  shows "totaldispw L' = totaldispw L"
  using assms
  by (auto simp: clipdraw_chunk_def Let_def
      split: if_splits option.splits sum.splits prod.splits)

text \<open>
  C9: a call of \<open>clipdraw\<close> in which a write to the drawing surface raises. The chunks
  before the one whose write fails were drawn (the loop passed them and reached the
  state \<open>L\<close>); the body of the loop raises \<open>e\<close> on the next chunk, \<open>ch\<close>. Then \<open>clipdraw\<close>
  returns the total width drawn up to there, \<open>totaldispw\<close> of \<open>L\<close>, and with
  \<open>options.debug\<close> set it raises \<open>e\<close> instead. The failed chunk adds nothing to the
  total.
\<close>

theorem clipdraw_write_error:
  assumes "iterchunks s literal = pre @ ch # post"
    and "clipdraw_loop E y (cattr (clipdraw_init scr x a mreg)) w clear rtl truncator oddspace
           (clipdraw_width E scr) (clipdraw_init scr x a mreg) pre = Continue L"
    and "clipdraw_chunk E y (cattr (clipdraw_init scr x a mreg)) w clear rtl truncator oddspace
           (clipdraw_width E scr) L ch = Raise e L'"
  shows "fst (clipdraw E mreg scr y x s a w clear rtl literal truncator oddspace)
           = (if debug (env_options E) then Inl e else Inr (totaldispw L))"
proof -
  have "clipdraw_loop E y (cattr (clipdraw_init scr x a mreg)) w clear rtl truncator oddspace
          (clipdraw_width E scr) (clipdraw_init scr x a mreg) (iterchunks s literal)
        = Raise e L'"
    using assms by (simp add: clipdraw_loop_append)
  moreover have "totaldispw L' = totaldispw L"
    using assms(3) by (rule clipdraw_chunk_raise_total)
  ultimately show ?thesis by (simp add: clipdraw_def Let_def)
qed

lemmas draw_eval_defs =
  clipdraw_chunk_def clipstr_def draw_writes_def budget_ops_def budget_env_def
  clipdraw_init_def clipdraw_width_def

text \<open>
  On a window that accepts one write, drawing \<open>ab[:x]cd\<close> without clearing: \<open>ab\<close> is
  written (2 cells), the write of \<open>cd\<close> raises \<open>curses.error\<close>, and \<open>clipdraw\<close> returns 2;
  with \<open>options.debug\<close> set the error is raised again.
\<close>

theorem clipdraw_write_error_witness:
  "fst (clipdraw (budget_env False) ([] :: (nat, unit) mouse_region list) (Some 1) 0 0
          (ustr ''ab[:x]cd'') (PlainAttr 0) None False False False None None) = Inr 2
   \<and> fst (clipdraw (budget_env True) ([] :: (nat, unit) mouse_region list) (Some 1) 0 0
          (ustr ''ab[:x]cd'') (PlainAttr 0) None False False False None None) = Inl CursesError"
proof -
  let ?L = "\<lparr>cur_x = 2, totaldispw = 2,
             cattr = \<lparr>color = 1, attributes = 0, precedence = 0, attr = 1\<rparr>,
             link = [], cur_scr = Some (0::nat),
             cur_mousereg = ([] :: (nat, unit) mouse_region list)\<rparr>"
  have chunks: "iterchunks (ustr ''ab[:x]cd'') False
                  = [([], ustr ''ab''), (ustr ''x'', [])] @ ([], ustr ''cd'') # []"
    by (simp add: eval_defs)
  have pre: "clipdraw_loop (budget_env dbg) 0 (cattr (clipdraw_init (Some 1) 0 (PlainAttr 0) []))
               None False False None None (clipdraw_width (budget_env dbg) (Some 1))
               (clipdraw_init (Some 1) 0 (PlainAttr 0) [])
               [([], ustr ''ab''), (ustr ''x'', [])] = Continue ?L" for dbg
    by (simp add: eval_defs draw_eval_defs)
  have fail: "clipdraw_chunk (budget_env dbg) 0 (cattr (clipdraw_init (Some 1) 0 (PlainAttr 0) []))
               None False False None None (clipdraw_width (budget_env dbg) (Some 1))
               ?L ([], ustr ''cd'') = Raise CursesError ?L" for dbg
    by (simp add: eval_defs draw_eval_defs)
  from clipdraw_write_error [OF chunks pre [of False] fail [of False]]
       clipdraw_write_error [OF chunks pre [of True] fail [of True]]
  show ?thesis by (simp add: budget_env_def)
qed

section \<open>The plain lines of \<open>wraptext\<close>\<close>











end
